theory Spec2Isabelle
  imports Main
begin

section \<open>Data model\<close>

subsection \<open>Dynamically typed configuration values\<close>

text \<open>
  The configuration maps handed to the module are Go maps \<^verbatim>\<open>map[string]interface{}\<close>
  (\<^verbatim>\<open>apiv1.Accessory\<close> and \<^verbatim>\<open>apiv1.GenericConfig\<close>). The module distinguishes
  a value that is a Go \<^verbatim>\<open>string\<close> from every other value (the type assertion in
  \<^verbatim>\<open>GetCloudProviderType\<close>); the YAML round trip of \<^verbatim>\<open>CompleteConfig\<close> further
  distinguishes the nil interface, the other scalars (numbers and booleans, carried
  here as the text that \<^verbatim>\<open>yaml.Marshal\<close> writes for them), sequences and mappings.
\<close>

datatype any =
    AString string
  | AScalar string
  | ANil
  | AList "any list"
  | AMap "(string \<times> any) list"

text \<open>A Go map value is either nil (\<open>None\<close>) or a finite map.\<close>

type_synonym GenericConfig = "(string \<rightharpoonup> any) option"
type_synonym Accessory = "(string \<rightharpoonup> any) option"

subsection \<open>The module's own types\<close>

text \<open>\<^verbatim>\<open>type ObjectStorage struct\<close>, with the YAML keys \<^verbatim>\<open>type\<close> and \<^verbatim>\<open>bucket\<close>.\<close>

record ObjectStorage =
  Type :: string
  Bucket :: string

text \<open>
  \<^verbatim>\<open>module.GeneratorRequest\<close>: the module reads the two configuration blocks only; the
  remaining fields of the framework's struct live in the record extension.
\<close>

record GeneratorRequest =
  DevConfig :: Accessory
  PlatformConfig :: GenericConfig

text \<open>\<^verbatim>\<open>module.ProviderConfig\<close>.\<close>

record ProviderConfig =
  Source :: string
  Version :: string
  ProviderMeta :: GenericConfig

text \<open>\<^verbatim>\<open>v1.EnvVar\<close> and \<^verbatim>\<open>apiv1.Patcher\<close>, with the fields the module sets.\<close>

record EnvVar =
  Name :: string
  Value :: string

record Patcher =
  Environments :: "EnvVar list"

text \<open>\<^verbatim>\<open>module.GeneratorResponse\<close>; the resource envelope \<open>'r\<close> is owned by the host.\<close>

record 'r GeneratorResponse =
  Resources :: "'r list"
  Patcher :: "Patcher option"

subsection \<open>Errors and panics\<close>

text \<open>
  Go errors are compared by identity. Each sentinel created with \<^verbatim>\<open>errors.New\<close> is a
  constructor of its own; \<open>Errorf\<close> carries the formatted message of \<^verbatim>\<open>fmt.Errorf\<close>;
  \<open>YamlError\<close> is an error returned by the YAML library and \<open>FrameworkError\<close> wraps an
  error value returned by a helper of the module framework, which can never be one of
  this package's sentinels.
\<close>

datatype 'e error =
    ErrEmptyAWSProviderRegion
  | ErrEmptyInstanceTypeForCloudDB
  | ErrEmptyCloudProviderType
  | ErrEmptyModuleConfigBlock
  | Errorf string
  | YamlError
  | FrameworkError 'e

text \<open>The message of an error that this package creates itself.\<close>

fun Error :: "'e error \<Rightarrow> string option" where
  "Error ErrEmptyAWSProviderRegion = Some ''empty aws provider region''"
| "Error ErrEmptyInstanceTypeForCloudDB =
     Some ''empty instance type for cloud managed mysql instance''"
| "Error ErrEmptyCloudProviderType = Some ''empty cloud provider type in mysql module config''"
| "Error (Errorf msg) = Some msg"
| "Error ErrEmptyModuleConfigBlock = None"
| "Error YamlError = None"
| "Error (FrameworkError e) = None"

datatype panic = TypeAssertion | NilDereference

datatype 'a outcome = Returns 'a | Panics panic

section \<open>Library functions the module calls\<close>

subsection \<open>Standard library\<close>

text \<open>
  \<^verbatim>\<open>os.Getenv\<close>: the value of the variable, empty when it is unset. The environment is
  a map from names to values.
\<close>

definition Getenv :: "(string \<rightharpoonup> string) \<Rightarrow> string \<Rightarrow> string" where
  "Getenv env key = (case env key of None \<Rightarrow> '''' | Some v \<Rightarrow> v)"

text \<open>
  \<^verbatim>\<open>strings.ToLower\<close> on the bytes of the string: the letters A to Z are mapped to
  a to z, every other byte is kept. Go also maps the upper-case letters beyond ASCII;
  none of them is mapped to a letter of \<^verbatim>\<open>cloud\<close> or \<^verbatim>\<open>aws\<close>, the two words that
  the module compares the result with.
\<close>

definition lower_byte :: "char \<Rightarrow> char" where
  "lower_byte c =
     (case map_of (zip ''ABCDEFGHIJKLMNOPQRSTUVWXYZ'' ''abcdefghijklmnopqrstuvwxyz'') c of
        Some l \<Rightarrow> l
      | None \<Rightarrow> c)"

definition ToLower :: "string \<Rightarrow> string" where
  "ToLower s = map lower_byte s"

subsection \<open>YAML round trip\<close>

text \<open>
  \<^verbatim>\<open>yaml.Marshal\<close> of a configuration map gives a document that denotes the same
  mapping; the document is represented by that mapping. The values of type \<open>any\<close> are
  plain data, which the encoder always accepts, so the error result is nil.
\<close>

definition yaml_Marshal :: "(string \<rightharpoonup> any) \<Rightarrow> (string \<rightharpoonup> any) \<times> 'e error option" where
  "yaml_Marshal m = (m, None)"

text \<open>
  The text that the decoder stores into a field of Go type \<^verbatim>\<open>string\<close>: a string
  gives itself, another scalar its text, a null the zero value; a sequence or a mapping
  cannot be decoded into a string.
\<close>

fun scalar_text :: "any \<Rightarrow> string option" where
  "scalar_text (AString s) = Some s"
| "scalar_text (AScalar t) = Some t"
| "scalar_text ANil = Some ''''"
| "scalar_text (AList xs) = None"
| "scalar_text (AMap kvs) = None"

text \<open>
  Decoding the value of \<open>key\<close> into the field that holds \<open>old\<close>: the new content of the
  field, and whether decoding went without type error. A key that is absent and a value
  that cannot be decoded leave the field as it is.
\<close>

definition decode_field :: "(string \<rightharpoonup> any) \<Rightarrow> string \<Rightarrow> string \<Rightarrow> string \<times> bool" where
  "decode_field doc key old =
     (case doc key of
        None \<Rightarrow> (old, True)
      | Some v \<Rightarrow> (case scalar_text v of Some s \<Rightarrow> (s, True) | None \<Rightarrow> (old, False)))"

text \<open>
  \<^verbatim>\<open>yaml.Unmarshal\<close> of such a document onto an \<^verbatim>\<open>*ObjectStorage\<close>: a key of the
  document that is the YAML tag of a field (\<^verbatim>\<open>type\<close>, \<^verbatim>\<open>bucket\<close>) is decoded
  into that field, any other key is skipped, a field without key is left as it is. Type
  errors are collected and returned after all keys have been visited.
\<close>

definition yaml_Unmarshal ::
  "(string \<rightharpoonup> any) \<Rightarrow> ObjectStorage \<Rightarrow> 'e error option \<times> ObjectStorage" where
  "yaml_Unmarshal doc out =
     (let (t, ok_t) = decode_field doc ''type'' (Type out);
          (b, ok_b) = decode_field doc ''bucket'' (Bucket out)
      in (if ok_t \<and> ok_b then None else Some YamlError, out\<lparr>Type := t, Bucket := b\<rparr>))"

subsection \<open>Module framework\<close>

text \<open>
  The helpers of the module framework are parameters of the development:
  \<^verbatim>\<open>module.TerraformProviderRegion\<close>, \<^verbatim>\<open>module.TerraformResourceID\<close>,
  \<^verbatim>\<open>module.WrapTFResourceToKusionResource\<close> and \<^verbatim>\<open>modules.KusionPathDependency\<close>.
  A helper that returns a value and an error returns \<open>Inl\<close> of the error or \<open>Inr\<close> of
  the value.
\<close>

record ('e, 'r) framework =
  TerraformProviderRegion :: "ProviderConfig \<Rightarrow> string"
  TerraformResourceID :: "ProviderConfig \<Rightarrow> string \<Rightarrow> string \<Rightarrow> 'e + string"
  WrapTFResourceToKusionResource ::
    "ProviderConfig \<Rightarrow> string \<Rightarrow> string \<Rightarrow> (string \<rightharpoonup> any) \<Rightarrow> string list \<Rightarrow> 'e + 'r"
  KusionPathDependency :: "string \<Rightarrow> string \<Rightarrow> string"

section \<open>aws\_s3.go\<close>

definition awsRegionEnv :: string where "awsRegionEnv = ''AWS_REGION''"
definition awsSecurityGroup :: string where "awsSecurityGroup = ''aws_security_group''"
definition awsDBInstance :: string where "awsDBInstance = ''aws_db_instance''"
definition awsS3Bucket :: string where "awsS3Bucket = ''aws_s3_bucket''"

definition defaultAWSProviderCfg :: ProviderConfig where
  "defaultAWSProviderCfg =
     \<lparr>Source = ''hashicorp/aws'', Version = ''5.55.0'', ProviderMeta = None\<rparr>"

text \<open>
  \<^verbatim>\<open>generateAWSS3Bucket\<close>. The provider config is passed by value, so the assignment
  of the region metadata changes the callee's copy only.
\<close>

definition generateAWSS3Bucket ::
  "('e, 'r) framework \<Rightarrow> ObjectStorage \<Rightarrow> ProviderConfig \<Rightarrow> string \<Rightarrow> 'e error + ('r \<times> string)" where
  "generateAWSS3Bucket fw objectStorage awsProviderCfg region =
     (let resAttrs = [''bucket'' \<mapsto> AString (Bucket objectStorage)] in
      case TerraformResourceID fw awsProviderCfg awsS3Bucket (Bucket objectStorage) of
        Inl err \<Rightarrow> Inl (FrameworkError err)
      | Inr id' \<Rightarrow>
          (let awsProviderCfg' =
                 awsProviderCfg\<lparr>ProviderMeta := Some [''region'' \<mapsto> AString region]\<rparr> in
           case WrapTFResourceToKusionResource fw awsProviderCfg' awsS3Bucket id' resAttrs [] of
             Inl err \<Rightarrow> Inl (FrameworkError err)
           | Inr resource \<Rightarrow> Inr (resource, id')))"

text \<open>
  \<^verbatim>\<open>GenerateAWSResources\<close>, returning the triple of the source: resources, patcher
  and error. The request is a pointer that the function never reads. The local
  \<^verbatim>\<open>awsS3Bucket\<close> of the source, which shadows the package-level string, is \<open>awsS3Bucket'\<close>.
\<close>

definition GenerateAWSResources ::
  "('e, 'r) framework \<Rightarrow> (string \<rightharpoonup> string) \<Rightarrow> ObjectStorage \<Rightarrow>
   'q GeneratorRequest_scheme option \<Rightarrow> 'r list \<times> Patcher option \<times> 'e error option" where
  "GenerateAWSResources fw env objectStorage request =
     (let awsProviderCfg = defaultAWSProviderCfg;
          region0 = TerraformProviderRegion fw awsProviderCfg;
          region = (if region0 = '''' then Getenv env awsRegionEnv else region0)
      in if region = '''' then ([], None, Some ErrEmptyAWSProviderRegion)
         else
           case generateAWSS3Bucket fw objectStorage awsProviderCfg region of
             Inl err \<Rightarrow> ([], None, Some err)
           | Inr (awsS3Bucket', awsS3BucketID) \<Rightarrow>
               (let resources = [] @ [awsS3Bucket'];
                    bucketDomainName =
                      KusionPathDependency fw awsS3BucketID ''bucket_domain_name'';
                    bucketRegionalDomainName =
                      KusionPathDependency fw awsS3BucketID ''bucket_regional_domain_name'';
                    envVars =
                      [\<lparr>Name = ''KUSION_AWS_S3_BUCKET_DOMAIN_NAME'', Value = bucketDomainName\<rparr>,
                       \<lparr>Name = ''KUSION_AWS_S3_BUCKET_REGIONAL_DOMAIN_NAME'',
                        Value = bucketRegionalDomainName\<rparr>];
                    patcher = \<lparr>Environments = envVars\<rparr>
                in (resources, Some patcher, None)))"

subsection \<open>The second copy of the file\<close>

text \<open>
  The repository holds a second file with the declarations of \<^verbatim>\<open>aws_s3.go\<close>, in the
  same package name. Its \<^verbatim>\<open>generateAWSS3Bucket\<close> is the function above; its default
  provider config (version 5.0.1) and its \<^verbatim>\<open>GenerateAWSResources\<close>, which builds one
  environment variable from a token of a token, differ and carry the suffix \<open>_alt\<close> here.
\<close>

definition defaultAWSProviderCfg_alt :: ProviderConfig where
  "defaultAWSProviderCfg_alt =
     \<lparr>Source = ''hashicorp/aws'', Version = ''5.0.1'', ProviderMeta = None\<rparr>"

definition GenerateAWSResources_alt ::
  "('e, 'r) framework \<Rightarrow> (string \<rightharpoonup> string) \<Rightarrow> ObjectStorage \<Rightarrow>
   'q GeneratorRequest_scheme option \<Rightarrow> 'r list \<times> Patcher option \<times> 'e error option" where
  "GenerateAWSResources_alt fw env objectStorage request =
     (let awsProviderCfg = defaultAWSProviderCfg_alt;
          region0 = TerraformProviderRegion fw awsProviderCfg;
          region = (if region0 = '''' then Getenv env awsRegionEnv else region0)
      in if region = '''' then ([], None, Some ErrEmptyAWSProviderRegion)
         else
           case generateAWSS3Bucket fw objectStorage awsProviderCfg region of
             Inl err \<Rightarrow> ([], None, Some err)
           | Inr (awsS3Bucket', awsS3BucketID) \<Rightarrow>
               (let resources = [] @ [awsS3Bucket'];
                    hostAddress = KusionPathDependency fw awsS3BucketID ''address'';
                    envVars =
                      [\<lparr>Name = ''KUSION_AWS_S3_BUCKET_ADDRESS'',
                        Value = KusionPathDependency fw hostAddress ''result''\<rparr>];
                    patcher = \<lparr>Environments = envVars\<rparr>
                in (resources, Some patcher, None)))"

section \<open>objectstorage\_generator.go\<close>

text \<open>\<^verbatim>\<open>CompleteConfig\<close>: the error result and the receiver after the call.\<close>

definition CompleteConfig ::
  "Accessory \<Rightarrow> GenericConfig \<Rightarrow> ObjectStorage \<Rightarrow> 'e error option \<times> ObjectStorage" where
  "CompleteConfig devConfig platformConfig objectStorage =
     (let (err1, os1) =
            (case devConfig of
               None \<Rightarrow> (None, objectStorage)
             | Some dev \<Rightarrow>
                 (case yaml_Marshal dev of
                    (devCfgYamlStr, Some err) \<Rightarrow> (Some err, objectStorage)
                  | (devCfgYamlStr, None) \<Rightarrow> yaml_Unmarshal devCfgYamlStr objectStorage))
      in if err1 \<noteq> None then (err1, os1)
         else
           (case platformConfig of
              None \<Rightarrow> (None, os1)
            | Some platform \<Rightarrow>
                (case yaml_Marshal platform of
                   (platformCfgYamlStr, Some err) \<Rightarrow> (Some err, os1)
                 | (platformCfgYamlStr, None) \<Rightarrow> yaml_Unmarshal platformCfgYamlStr os1)))"

text \<open>\<^verbatim>\<open>ValidateConfig\<close>.\<close>

definition ValidateConfig :: "ObjectStorage \<Rightarrow> 'e error option" where
  "ValidateConfig objectStorage = None"

text \<open>
  \<^verbatim>\<open>GetCloudProviderType\<close>: the pair of the source, or the panic of the type
  assertion \<^verbatim>\<open>cloud.(string)\<close> on a value that is not a string.
\<close>

definition GetCloudProviderType :: "GenericConfig \<Rightarrow> (string \<times> 'e error option) outcome" where
  "GetCloudProviderType platformConfig =
     (case platformConfig of
        None \<Rightarrow> Returns ('''', Some ErrEmptyModuleConfigBlock)
      | Some m \<Rightarrow>
          (case m ''cloud'' of
             Some cloud \<Rightarrow>
               (case cloud of AString s \<Rightarrow> Returns (s, None) | _ \<Rightarrow> Panics TypeAssertion)
           | None \<Rightarrow> Returns ('''', Some ErrEmptyCloudProviderType)))"

text \<open>
  The body of \<^verbatim>\<open>Generate\<close>: what it returns or the panic it raises, and the receiver
  as the body leaves it. Logging is not modelled.
\<close>

definition Generate_body ::
  "('e, 'r) framework \<Rightarrow> (string \<rightharpoonup> string) \<Rightarrow> ObjectStorage \<Rightarrow>
   'q GeneratorRequest_scheme option \<Rightarrow>
   ('r GeneratorResponse option \<times> 'e error option) outcome \<times> ObjectStorage" where
  "Generate_body fw env objectStorage request =
     (case request of
        None \<Rightarrow> (Panics NilDereference, objectStorage)
      | Some req \<Rightarrow>
          (case CompleteConfig (DevConfig req) (PlatformConfig req) objectStorage of
             (Some err, os1) \<Rightarrow> (Returns (None, Some err), os1)
           | (None, os1) \<Rightarrow>
               (case ValidateConfig os1 of
                  Some err \<Rightarrow> (Returns (None, Some err), os1)
                | None \<Rightarrow>
                    if ToLower (Type os1) = ''cloud'' then
                      (case GetCloudProviderType (PlatformConfig req) of
                         Panics p \<Rightarrow> (Panics p, os1)
                       | Returns (providerType, Some err) \<Rightarrow> (Returns (None, Some err), os1)
                       | Returns (providerType, None) \<Rightarrow>
                           if ToLower providerType = ''aws'' then
                             (case GenerateAWSResources fw env os1 request of
                                (resources, patcher, Some err) \<Rightarrow>
                                  (Returns (None, Some err), os1)
                              | (resources, patcher, None) \<Rightarrow>
                                  (Returns
                                     (Some \<lparr>Resources = resources, Patcher = patcher\<rparr>, None),
                                   os1))
                           else
                             (Returns
                                (None,
                                 Some (Errorf (''unsupported cloud provider type: '' @ providerType))),
                              os1))
                    else
                      (Returns
                         (None, Some (Errorf (''unsupported mysql type: '' @ Type os1))),
                       os1))))"

text \<open>
  \<^verbatim>\<open>Generate\<close>: the deferred function recovers a panic of the body, logs it and
  lets the call return the zero values of its results, a nil response and a nil error.
  The context parameter of the source is unnamed and never read.
\<close>

definition Generate ::
  "('e, 'r) framework \<Rightarrow> (string \<rightharpoonup> string) \<Rightarrow> ObjectStorage \<Rightarrow>
   'q GeneratorRequest_scheme option \<Rightarrow>
   ('r GeneratorResponse option \<times> 'e error option) \<times> ObjectStorage" where
  "Generate fw env objectStorage request =
     (case Generate_body fw env objectStorage request of
        (Returns result, os1) \<Rightarrow> (result, os1)
      | (Panics r, os1) \<Rightarrow> ((None, None), os1))"

section \<open>A framework instance for evaluation\<close>

text \<open>
  The theorems below hold for every framework. To evaluate the module at concrete inputs,
  \<open>sample_framework\<close> instantiates the helpers: the region is read from the provider
  metadata, a resource ID joins provider source, resource type and name, the envelope
  records what the wrapper was given, and a reference token is built from ID and attribute.
\<close>

record Resource =
  ID :: string
  ResourceType :: string
  Attributes :: "string \<rightharpoonup> any"
  DependsOn :: "string list"
  Provider :: ProviderConfig

definition sample_region :: "ProviderConfig \<Rightarrow> string" where
  "sample_region cfg =
     (case ProviderMeta cfg of
        None \<Rightarrow> ''''
      | Some m \<Rightarrow> (case m ''region'' of Some (AString r) \<Rightarrow> r | _ \<Rightarrow> ''''))"

definition sample_resource_id :: "ProviderConfig \<Rightarrow> string \<Rightarrow> string \<Rightarrow> string + string" where
  "sample_resource_id cfg resType resName =
     (if resName = '''' then Inl ''empty resource name''
      else Inr (Source cfg @ '':'' @ resType @ '':'' @ resName))"

definition sample_wrap ::
  "ProviderConfig \<Rightarrow> string \<Rightarrow> string \<Rightarrow> (string \<rightharpoonup> any) \<Rightarrow> string list \<Rightarrow> string + Resource" where
  "sample_wrap cfg resType resID attrs dependsOn =
     Inr \<lparr>ID = resID, ResourceType = resType, Attributes = attrs, DependsOn = dependsOn,
          Provider = cfg\<rparr>"

definition sample_path_dependency :: "string \<Rightarrow> string \<Rightarrow> string" where
  "sample_path_dependency resID attr = ''$kusion_path.'' @ resID @ ''.'' @ attr"

definition sample_framework :: "(string, Resource) framework" where
  "sample_framework =
     \<lparr>TerraformProviderRegion = sample_region,
      TerraformResourceID = sample_resource_id,
      WrapTFResourceToKusionResource = sample_wrap,
      KusionPathDependency = sample_path_dependency\<rparr>"

section \<open>Notions used in the statements\<close>

text \<open>
  The region that the two-step fallback of \<^verbatim>\<open>GenerateAWSResources\<close> arrives at: the
  region of the provider config, else the value of \<^verbatim>\<open>AWS_REGION\<close>.
\<close>

definition resolved_region ::
  "('e, 'r) framework \<Rightarrow> (string \<rightharpoonup> string) \<Rightarrow> ProviderConfig \<Rightarrow> string" where
  "resolved_region fw env cfg =
     (if TerraformProviderRegion fw cfg = '''' then Getenv env ''AWS_REGION''
      else TerraformProviderRegion fw cfg)"

text \<open>
  What \<^verbatim>\<open>GenerateAWSResources\<close> returns once a non-empty region is known, in the
  first and in the second copy of the file. \<open>GenerateAWSResources_by_region\<close> and
  \<open>GenerateAWSResources_alt_by_region\<close> below relate them to the functions.
\<close>

definition bucket_result ::
  "('e, 'r) framework \<Rightarrow> ObjectStorage \<Rightarrow> ProviderConfig \<Rightarrow> string \<Rightarrow>
   'r list \<times> Patcher option \<times> 'e error option" where
  "bucket_result fw objectStorage cfg region =
     (case generateAWSS3Bucket fw objectStorage cfg region of
        Inl err \<Rightarrow> ([], None, Some err)
      | Inr (resource, rid) \<Rightarrow>
          ([resource],
           Some \<lparr>Environments =
             [\<lparr>Name = ''KUSION_AWS_S3_BUCKET_DOMAIN_NAME'',
               Value = KusionPathDependency fw rid ''bucket_domain_name''\<rparr>,
              \<lparr>Name = ''KUSION_AWS_S3_BUCKET_REGIONAL_DOMAIN_NAME'',
               Value = KusionPathDependency fw rid ''bucket_regional_domain_name''\<rparr>]\<rparr>,
           None))"

definition bucket_result_alt ::
  "('e, 'r) framework \<Rightarrow> ObjectStorage \<Rightarrow> ProviderConfig \<Rightarrow> string \<Rightarrow>
   'r list \<times> Patcher option \<times> 'e error option" where
  "bucket_result_alt fw objectStorage cfg region =
     (case generateAWSS3Bucket fw objectStorage cfg region of
        Inl err \<Rightarrow> ([], None, Some err)
      | Inr (resource, rid) \<Rightarrow>
          ([resource],
           Some \<lparr>Environments =
             [\<lparr>Name = ''KUSION_AWS_S3_BUCKET_ADDRESS'',
               Value =
                 KusionPathDependency fw (KusionPathDependency fw rid ''address'') ''result''\<rparr>]\<rparr>,
           None))"

section \<open>Auxiliary lemmas\<close>

lemmas sample_defs =
  sample_framework_def sample_region_def sample_resource_id_def sample_wrap_def
  sample_path_dependency_def

lemma ToLower_examples:
  "ToLower ''Cloud'' = ''cloud''"
  "ToLower ''cloud'' = ''cloud''"
  "ToLower ''AWS'' = ''aws''"
  "ToLower ''unsupported'' \<noteq> ''cloud''"
  "ToLower ''gcp'' \<noteq> ''aws''"
  by (simp_all add: ToLower_def lower_byte_def)

lemma Getenv_empty: "Getenv env key = '''' \<longleftrightarrow> env key = None \<or> env key = Some ''''"
  by (simp add: Getenv_def split: option.split)

lemma env_set_nonempty:
  "(\<exists>v. env key = Some v \<and> v \<noteq> []) \<longleftrightarrow> \<not> (env key = None \<or> env key = Some [])"
  by (cases "env key") auto

lemma resolved_region_empty:
  "resolved_region fw env cfg = [] \<longleftrightarrow>
     TerraformProviderRegion fw cfg = [] \<and>
     (env ''AWS_REGION'' = None \<or> env ''AWS_REGION'' = Some [])"
  by (simp add: resolved_region_def Getenv_empty)

lemma GenerateAWSResources_by_region:
  "GenerateAWSResources fw env objectStorage request =
     (if resolved_region fw env defaultAWSProviderCfg = ''''
      then ([], None, Some ErrEmptyAWSProviderRegion)
      else bucket_result fw objectStorage defaultAWSProviderCfg
             (resolved_region fw env defaultAWSProviderCfg))"
  unfolding GenerateAWSResources_def resolved_region_def bucket_result_def awsRegionEnv_def
    Let_def
  by (simp split: sum.split prod.split)

lemma GenerateAWSResources_alt_by_region:
  "GenerateAWSResources_alt fw env objectStorage request =
     (if resolved_region fw env defaultAWSProviderCfg_alt = ''''
      then ([], None, Some ErrEmptyAWSProviderRegion)
      else bucket_result_alt fw objectStorage defaultAWSProviderCfg_alt
             (resolved_region fw env defaultAWSProviderCfg_alt))"
  unfolding GenerateAWSResources_alt_def resolved_region_def bucket_result_alt_def
    awsRegionEnv_def Let_def
  by (simp split: sum.split prod.split)

text \<open>An error of the bucket construction comes from the framework.\<close>

lemma generateAWSS3Bucket_error:
  "generateAWSS3Bucket fw objectStorage cfg region = Inl err \<Longrightarrow> \<exists>e. err = FrameworkError e"
  by (auto simp: generateAWSS3Bucket_def Let_def split: sum.splits)

lemma bucket_result_error:
  "snd (snd (bucket_result fw objectStorage cfg region)) \<noteq> Some ErrEmptyAWSProviderRegion"
  "snd (snd (bucket_result_alt fw objectStorage cfg region)) \<noteq> Some ErrEmptyAWSProviderRegion"
  by (auto simp: bucket_result_def bucket_result_alt_def split: sum.splits
      dest: generateAWSS3Bucket_error)

lemma region_error_iff:
  "snd (snd (GenerateAWSResources fw env objectStorage request)) =
     Some ErrEmptyAWSProviderRegion
     \<longleftrightarrow> resolved_region fw env defaultAWSProviderCfg = []"
  by (simp add: GenerateAWSResources_by_region bucket_result_error)

lemma region_error_iff_alt:
  "snd (snd (GenerateAWSResources_alt fw env objectStorage request)) =
     Some ErrEmptyAWSProviderRegion
     \<longleftrightarrow> resolved_region fw env defaultAWSProviderCfg_alt = []"
  by (simp add: GenerateAWSResources_alt_by_region bucket_result_error)

lemmas complete_defs = CompleteConfig_def yaml_Marshal_def yaml_Unmarshal_def decode_field_def

lemma yaml_Unmarshal_ok:
  assumes "yaml_Unmarshal doc out = (None, out')"
  shows "(\<forall>v. doc ''type'' = Some v \<longrightarrow> scalar_text v = Some (Type out')) \<and>
         (\<forall>v. doc ''bucket'' = Some v \<longrightarrow> scalar_text v = Some (Bucket out'))"
  using assms
  by (auto simp: yaml_Unmarshal_def decode_field_def Let_def
      split: prod.splits option.splits if_splits)

lemma CompleteConfig_platform_last:
  assumes "CompleteConfig devConfig (Some platform) objectStorage =
      (None :: 'e error option, merged)"
  shows "\<exists>os1. yaml_Unmarshal platform os1 = (None :: 'e error option, merged)"
  using assms
  by (auto simp: CompleteConfig_def yaml_Marshal_def Let_def
      split: prod.splits option.splits if_splits)

lemma generateAWSS3Bucket_ok:
  assumes "TerraformResourceID fw cfg ''aws_s3_bucket'' (Bucket objectStorage) = Inr rid"
    and "WrapTFResourceToKusionResource fw
           (cfg\<lparr>ProviderMeta := Some [''region'' \<mapsto> AString region]\<rparr>)
           ''aws_s3_bucket'' rid [''bucket'' \<mapsto> AString (Bucket objectStorage)] [] = Inr resource"
  shows "generateAWSS3Bucket fw objectStorage cfg region = Inr (resource, rid)"
  using assms by (simp add: generateAWSS3Bucket_def awsS3Bucket_def)

section \<open>Configuration completion and validation\<close>

text \<open>
  C8. When the developer config and the platform config are both nil, \<^verbatim>\<open>CompleteConfig\<close>
  returns a nil error and leaves the receiver as it was; in particular the zero-valued
  \<^verbatim>\<open>ObjectStorage\<close> stays at its zero value.
\<close>

theorem CompleteConfig_nil_nil:
  "CompleteConfig None None objectStorage = (None, objectStorage) \<and>
   CompleteConfig None None \<lparr>Type = '''', Bucket = ''''\<rparr> =
     (None, \<lparr>Type = '''', Bucket = ''''\<rparr>)"
  by (simp add: CompleteConfig_def)

text \<open>
  C9. \<^verbatim>\<open>ValidateConfig\<close> returns a nil error for every \<^verbatim>\<open>ObjectStorage\<close>, whatever
  its bucket and type are.
\<close>

theorem ValidateConfig_accepts: "ValidateConfig objectStorage = None"
  by (simp add: ValidateConfig_def)

text \<open>
  C2. When a developer config and a platform config share a key and \<^verbatim>\<open>CompleteConfig\<close>
  succeeds, the field of that key (\<^verbatim>\<open>bucket\<close> or \<^verbatim>\<open>type\<close>) holds what the YAML
  round trip decodes from the platform's value, whatever the developer's value is; for a
  platform value that is a string the field is that string. The platform config is
  decoded onto the receiver after the developer config.
\<close>

theorem CompleteConfig_platform_wins:
  assumes "CompleteConfig (Some dev) (Some platform) objectStorage =
      (None :: 'e error option, merged)"
    and "dev key = Some dv"
    and "platform key = Some pv"
  shows "(key = ''bucket'' \<longrightarrow> scalar_text pv = Some (Bucket merged)) \<and>
         (key = ''type'' \<longrightarrow> scalar_text pv = Some (Type merged)) \<and>
         (\<forall>s. pv = AString s \<longrightarrow>
            (key = ''bucket'' \<longrightarrow> Bucket merged = s) \<and>
            (key = ''type'' \<longrightarrow> Type merged = s))"
proof -
  from assms(1) obtain os1
    where u: "yaml_Unmarshal platform os1 = (None :: 'e error option, merged)"
    using CompleteConfig_platform_last by blast
  from yaml_Unmarshal_ok [OF u] assms(3)
  have b: "key = ''bucket'' \<longrightarrow> scalar_text pv = Some (Bucket merged)"
    and t: "key = ''type'' \<longrightarrow> scalar_text pv = Some (Type merged)"
    by auto
  from b t show ?thesis by auto
qed

theorem CompleteConfig_platform_wins_witness:
  "CompleteConfig
     (Some [''type'' \<mapsto> AString ''local'', ''bucket'' \<mapsto> AString ''dev-bucket''])
     (Some [''bucket'' \<mapsto> AString ''platform-bucket'', ''cloud'' \<mapsto> AString ''aws''])
     \<lparr>Type = '''', Bucket = ''''\<rparr> =
     (None :: unit error option, \<lparr>Type = ''local'', Bucket = ''platform-bucket''\<rparr>) \<and>
   Bucket \<lparr>Type = ''local'', Bucket = ''platform-bucket''\<rparr> = ''platform-bucket''"
proof -
  let ?dev = "[''type'' \<mapsto> AString ''local'', ''bucket'' \<mapsto> AString ''dev-bucket'']"
  let ?plat = "[''bucket'' \<mapsto> AString ''platform-bucket'', ''cloud'' \<mapsto> AString ''aws'']"
  have c: "CompleteConfig (Some ?dev) (Some ?plat) \<lparr>Type = '''', Bucket = ''''\<rparr> =
     (None :: unit error option, \<lparr>Type = ''local'', Bucket = ''platform-bucket''\<rparr>)"
    by (simp add: complete_defs)
  have d: "?dev ''bucket'' = Some (AString ''dev-bucket'')" by simp
  have p: "?plat ''bucket'' = Some (AString ''platform-bucket'')" by simp
  show ?thesis
    using c CompleteConfig_platform_wins [OF c d p] by simp
qed

section \<open>Extraction of the cloud provider type\<close>

text \<open>
  C5. \<^verbatim>\<open>GetCloudProviderType\<close> returns the empty string and the error of the empty
  module config block on a nil map, the empty string and the different error of the empty
  cloud provider type on a map without the key \<^verbatim>\<open>cloud\<close>, and the string with a nil
  error when the key holds a string.
\<close>

theorem GetCloudProviderType_cases:
  "GetCloudProviderType None = Returns ('''', Some (ErrEmptyModuleConfigBlock :: 'e error)) \<and>
   (m ''cloud'' = None \<longrightarrow>
      GetCloudProviderType (Some m) =
        Returns ('''', Some (ErrEmptyCloudProviderType :: 'e error))) \<and>
   (m ''cloud'' = Some (AString s) \<longrightarrow>
      GetCloudProviderType (Some m) = Returns (s, (None :: 'e error option))) \<and>
   (ErrEmptyModuleConfigBlock :: 'e error) \<noteq> ErrEmptyCloudProviderType"
  by (simp add: GetCloudProviderType_def)

theorem GetCloudProviderType_cases_witness:
  "GetCloudProviderType (Some [''bucket'' \<mapsto> AString ''b'']) =
     Returns ('''', Some (ErrEmptyCloudProviderType :: unit error)) \<and>
   GetCloudProviderType (Some [''cloud'' \<mapsto> AString ''aws'']) =
     Returns (''aws'', (None :: unit error option))"
  using
    GetCloudProviderType_cases [of "[''bucket'' \<mapsto> AString ''b'']", where ?'e = unit]
    GetCloudProviderType_cases [of "[''cloud'' \<mapsto> AString ''aws'']" "''aws''",
      where ?'e = unit]
  by simp

section \<open>The AWS region\<close>

text \<open>
  C3. When the default provider config yields no region and \<^verbatim>\<open>AWS_REGION\<close> is unset
  or empty, \<^verbatim>\<open>GenerateAWSResources\<close> returns nil resources, a nil patcher and the
  sentinel \<^verbatim>\<open>ErrEmptyAWSProviderRegion\<close>; when the provider config or the variable
  gives a non-empty region, the error it returns is not that sentinel. This holds for
  both copies of the function.
\<close>

theorem GenerateAWSResources_empty_region:
  "Error (ErrEmptyAWSProviderRegion :: 'e error) = Some ''empty aws provider region'' \<and>
   (TerraformProviderRegion fw defaultAWSProviderCfg = '''' \<and>
    (env ''AWS_REGION'' = None \<or> env ''AWS_REGION'' = Some '''') \<longrightarrow>
      GenerateAWSResources fw env objectStorage request =
        ([], None, Some ErrEmptyAWSProviderRegion)) \<and>
   (TerraformProviderRegion fw defaultAWSProviderCfg \<noteq> '''' \<or>
    (\<exists>v. env ''AWS_REGION'' = Some v \<and> v \<noteq> '''') \<longrightarrow>
      snd (snd (GenerateAWSResources fw env objectStorage request)) \<noteq>
        Some ErrEmptyAWSProviderRegion) \<and>
   (TerraformProviderRegion fw defaultAWSProviderCfg_alt = '''' \<and>
    (env ''AWS_REGION'' = None \<or> env ''AWS_REGION'' = Some '''') \<longrightarrow>
      GenerateAWSResources_alt fw env objectStorage request =
        ([], None, Some ErrEmptyAWSProviderRegion)) \<and>
   (TerraformProviderRegion fw defaultAWSProviderCfg_alt \<noteq> '''' \<or>
    (\<exists>v. env ''AWS_REGION'' = Some v \<and> v \<noteq> '''') \<longrightarrow>
      snd (snd (GenerateAWSResources_alt fw env objectStorage request)) \<noteq>
        Some ErrEmptyAWSProviderRegion)"
proof (intro conjI impI)
  show "Error (ErrEmptyAWSProviderRegion :: 'e error) = Some ''empty aws provider region''"
    by simp
next
  assume "TerraformProviderRegion fw defaultAWSProviderCfg = [] \<and>
    (env ''AWS_REGION'' = None \<or> env ''AWS_REGION'' = Some [])"
  then show "GenerateAWSResources fw env objectStorage request =
        ([], None, Some ErrEmptyAWSProviderRegion)"
    by (simp add: GenerateAWSResources_by_region resolved_region_empty)
next
  assume "TerraformProviderRegion fw defaultAWSProviderCfg \<noteq> [] \<or>
    (\<exists>v. env ''AWS_REGION'' = Some v \<and> v \<noteq> [])"
  then show "snd (snd (GenerateAWSResources fw env objectStorage request)) \<noteq>
        Some ErrEmptyAWSProviderRegion"
    unfolding region_error_iff resolved_region_empty env_set_nonempty by blast
next
  assume "TerraformProviderRegion fw defaultAWSProviderCfg_alt = [] \<and>
    (env ''AWS_REGION'' = None \<or> env ''AWS_REGION'' = Some [])"
  then show "GenerateAWSResources_alt fw env objectStorage request =
        ([], None, Some ErrEmptyAWSProviderRegion)"
    by (simp add: GenerateAWSResources_alt_by_region resolved_region_empty)
next
  assume "TerraformProviderRegion fw defaultAWSProviderCfg_alt \<noteq> [] \<or>
    (\<exists>v. env ''AWS_REGION'' = Some v \<and> v \<noteq> [])"
  then show "snd (snd (GenerateAWSResources_alt fw env objectStorage request)) \<noteq>
        Some ErrEmptyAWSProviderRegion"
    unfolding region_error_iff_alt resolved_region_empty env_set_nonempty by blast
qed

theorem GenerateAWSResources_empty_region_witness:
  "TerraformProviderRegion sample_framework defaultAWSProviderCfg = '''' \<and>
   TerraformProviderRegion sample_framework defaultAWSProviderCfg_alt = '''' \<and>
   GenerateAWSResources sample_framework Map.empty \<lparr>Type = ''cloud'', Bucket = ''mybucket''\<rparr>
       (None :: GeneratorRequest option) =
     ([], None, Some ErrEmptyAWSProviderRegion) \<and>
   GenerateAWSResources_alt sample_framework [''AWS_REGION'' \<mapsto> '''']
       \<lparr>Type = ''cloud'', Bucket = ''mybucket''\<rparr> (None :: GeneratorRequest option) =
     ([], None, Some ErrEmptyAWSProviderRegion) \<and>
   snd (snd (GenerateAWSResources sample_framework [''AWS_REGION'' \<mapsto> ''us-east-1'']
       \<lparr>Type = ''cloud'', Bucket = ''mybucket''\<rparr> (None :: GeneratorRequest option))) \<noteq>
     Some ErrEmptyAWSProviderRegion \<and>
   snd (snd (GenerateAWSResources_alt sample_framework [''AWS_REGION'' \<mapsto> ''us-east-1'']
       \<lparr>Type = ''cloud'', Bucket = ''mybucket''\<rparr> (None :: GeneratorRequest option))) \<noteq>
     Some ErrEmptyAWSProviderRegion"
proof -
  have r: "TerraformProviderRegion sample_framework defaultAWSProviderCfg = ''''"
    "TerraformProviderRegion sample_framework defaultAWSProviderCfg_alt = ''''"
    by (simp_all add: sample_defs defaultAWSProviderCfg_def defaultAWSProviderCfg_alt_def)
  show ?thesis
    using r
      GenerateAWSResources_empty_region [of sample_framework Map.empty
        "\<lparr>Type = ''cloud'', Bucket = ''mybucket''\<rparr>" "None :: GeneratorRequest option"]
      GenerateAWSResources_empty_region [of sample_framework "[''AWS_REGION'' \<mapsto> '''']"
        "\<lparr>Type = ''cloud'', Bucket = ''mybucket''\<rparr>" "None :: GeneratorRequest option"]
      GenerateAWSResources_empty_region [of sample_framework
        "[''AWS_REGION'' \<mapsto> ''us-east-1'']"
        "\<lparr>Type = ''cloud'', Bucket = ''mybucket''\<rparr>" "None :: GeneratorRequest option"]
    by simp
qed

text \<open>
  C10. Under the same value of \<^verbatim>\<open>AWS_REGION\<close>, \<^verbatim>\<open>GenerateAWSResources\<close> returns the
  same resources, patcher and error for any two requests: the request has no influence on
  the result. This holds for both copies of the function.
\<close>

theorem GenerateAWSResources_ignores_request:
  "Getenv env1 ''AWS_REGION'' = Getenv env2 ''AWS_REGION'' \<Longrightarrow>
   GenerateAWSResources fw env1 objectStorage request1 =
     GenerateAWSResources fw env2 objectStorage request2 \<and>
   GenerateAWSResources_alt fw env1 objectStorage request1 =
     GenerateAWSResources_alt fw env2 objectStorage request2"
  by (simp add: GenerateAWSResources_by_region GenerateAWSResources_alt_by_region
      resolved_region_def)

theorem GenerateAWSResources_ignores_request_witness:
  "Getenv [''AWS_REGION'' \<mapsto> ''us-east-1'', ''HOME'' \<mapsto> ''/root''] ''AWS_REGION'' =
     Getenv [''AWS_REGION'' \<mapsto> ''us-east-1''] ''AWS_REGION'' \<and>
   GenerateAWSResources sample_framework
       [''AWS_REGION'' \<mapsto> ''us-east-1'', ''HOME'' \<mapsto> ''/root'']
       \<lparr>Type = ''cloud'', Bucket = ''mybucket''\<rparr> (None :: GeneratorRequest option) =
     GenerateAWSResources sample_framework [''AWS_REGION'' \<mapsto> ''us-east-1'']
       \<lparr>Type = ''cloud'', Bucket = ''mybucket''\<rparr>
       (Some \<lparr>DevConfig = None, PlatformConfig = Some [''cloud'' \<mapsto> AString ''aws'']\<rparr>)"
proof -
  have e: "Getenv [''AWS_REGION'' \<mapsto> ''us-east-1'', ''HOME'' \<mapsto> ''/root''] ''AWS_REGION'' =
     Getenv [''AWS_REGION'' \<mapsto> ''us-east-1''] ''AWS_REGION''"
    by (simp add: Getenv_def)
  show ?thesis
    using e GenerateAWSResources_ignores_request [OF e, of sample_framework
        "\<lparr>Type = ''cloud'', Bucket = ''mybucket''\<rparr>" "None :: GeneratorRequest option"
        "Some \<lparr>DevConfig = None, PlatformConfig = Some [''cloud'' \<mapsto> AString ''aws'']\<rparr>"]
    by simp
qed

text \<open>
  C7. Both default provider configs define source and version only, their metadata is
  nil. For a framework that finds no region in a provider config without metadata, the
  region that \<^verbatim>\<open>GenerateAWSResources\<close> uses is the value of \<^verbatim>\<open>AWS_REGION\<close>, and
  the call returns the empty-region error if and only if that variable is unset or empty.
\<close>

theorem GenerateAWSResources_region_from_env:
  assumes "\<forall>cfg. ProviderMeta cfg = None \<longrightarrow> TerraformProviderRegion fw cfg = ''''"
  shows "ProviderMeta defaultAWSProviderCfg = None \<and>
         ProviderMeta defaultAWSProviderCfg_alt = None \<and>
         resolved_region fw env defaultAWSProviderCfg = Getenv env ''AWS_REGION'' \<and>
         resolved_region fw env defaultAWSProviderCfg_alt = Getenv env ''AWS_REGION'' \<and>
         GenerateAWSResources fw env objectStorage request =
           (if Getenv env ''AWS_REGION'' = '''' then ([], None, Some ErrEmptyAWSProviderRegion)
            else bucket_result fw objectStorage defaultAWSProviderCfg
                   (Getenv env ''AWS_REGION'')) \<and>
         GenerateAWSResources_alt fw env objectStorage request =
           (if Getenv env ''AWS_REGION'' = '''' then ([], None, Some ErrEmptyAWSProviderRegion)
            else bucket_result_alt fw objectStorage defaultAWSProviderCfg_alt
                   (Getenv env ''AWS_REGION'')) \<and>
         (snd (snd (GenerateAWSResources fw env objectStorage request)) =
            Some ErrEmptyAWSProviderRegion
          \<longleftrightarrow> env ''AWS_REGION'' = None \<or> env ''AWS_REGION'' = Some '''') \<and>
         (snd (snd (GenerateAWSResources_alt fw env objectStorage request)) =
            Some ErrEmptyAWSProviderRegion
          \<longleftrightarrow> env ''AWS_REGION'' = None \<or> env ''AWS_REGION'' = Some '''')"
proof -
  have m: "ProviderMeta defaultAWSProviderCfg = None"
    "ProviderMeta defaultAWSProviderCfg_alt = None"
    by (simp_all add: defaultAWSProviderCfg_def defaultAWSProviderCfg_alt_def)
  with assms have r: "TerraformProviderRegion fw defaultAWSProviderCfg = ''''"
    "TerraformProviderRegion fw defaultAWSProviderCfg_alt = ''''"
    by blast+
  then have rr: "resolved_region fw env defaultAWSProviderCfg = Getenv env ''AWS_REGION''"
    "resolved_region fw env defaultAWSProviderCfg_alt = Getenv env ''AWS_REGION''"
    by (simp_all add: resolved_region_def)
  have g: "GenerateAWSResources fw env objectStorage request =
           (if Getenv env ''AWS_REGION'' = '''' then ([], None, Some ErrEmptyAWSProviderRegion)
            else bucket_result fw objectStorage defaultAWSProviderCfg
                   (Getenv env ''AWS_REGION''))"
    unfolding GenerateAWSResources_by_region rr ..
  have g_alt: "GenerateAWSResources_alt fw env objectStorage request =
           (if Getenv env ''AWS_REGION'' = '''' then ([], None, Some ErrEmptyAWSProviderRegion)
            else bucket_result_alt fw objectStorage defaultAWSProviderCfg_alt
                   (Getenv env ''AWS_REGION''))"
    unfolding GenerateAWSResources_alt_by_region rr ..
  have e: "snd (snd (GenerateAWSResources fw env objectStorage request)) =
            Some ErrEmptyAWSProviderRegion
          \<longleftrightarrow> env ''AWS_REGION'' = None \<or> env ''AWS_REGION'' = Some ''''"
    unfolding region_error_iff rr by (rule Getenv_empty)
  have e_alt: "snd (snd (GenerateAWSResources_alt fw env objectStorage request)) =
            Some ErrEmptyAWSProviderRegion
          \<longleftrightarrow> env ''AWS_REGION'' = None \<or> env ''AWS_REGION'' = Some ''''"
    unfolding region_error_iff_alt rr by (rule Getenv_empty)
  from m rr g g_alt e e_alt show ?thesis
    by (intro conjI)
qed

theorem GenerateAWSResources_region_from_env_witness:
  "GenerateAWSResources sample_framework [''AWS_REGION'' \<mapsto> ''us-east-1'']
       \<lparr>Type = ''cloud'', Bucket = ''mybucket''\<rparr> (None :: GeneratorRequest option) =
     bucket_result sample_framework \<lparr>Type = ''cloud'', Bucket = ''mybucket''\<rparr>
       defaultAWSProviderCfg ''us-east-1'' \<and>
   GenerateAWSResources sample_framework Map.empty
       \<lparr>Type = ''cloud'', Bucket = ''mybucket''\<rparr> (None :: GeneratorRequest option) =
     ([], None, Some ErrEmptyAWSProviderRegion)"
proof -
  have h: "\<forall>cfg. ProviderMeta cfg = None \<longrightarrow> TerraformProviderRegion sample_framework cfg = ''''"
    by (simp add: sample_framework_def sample_region_def)
  show ?thesis
    using GenerateAWSResources_region_from_env [OF h, of "[''AWS_REGION'' \<mapsto> ''us-east-1'']"
        "\<lparr>Type = ''cloud'', Bucket = ''mybucket''\<rparr>" "None :: GeneratorRequest option"]
      GenerateAWSResources_region_from_env [OF h, of Map.empty
        "\<lparr>Type = ''cloud'', Bucket = ''mybucket''\<rparr>" "None :: GeneratorRequest option"]
    by (simp add: Getenv_def)
qed

section \<open>The generated bucket and patcher\<close>

text \<open>
  C1. Let the bucket be \<^verbatim>\<open>mybucket\<close> and the region resolve to \<^verbatim>\<open>us-east-1\<close>.
  Then \<^verbatim>\<open>GenerateAWSResources\<close>, the function of \<^verbatim>\<open>aws_s3.go\<close> that
  \<^verbatim>\<open>Generate\<close> calls, returns exactly one resource, the envelope that the framework
  builds for the type \<^verbatim>\<open>aws_s3_bucket\<close>, the computed resource ID and the attribute map
  with the single entry \<^verbatim>\<open>bucket: mybucket\<close>, together with a patcher that carries
  exactly the two environment variables \<^verbatim>\<open>KUSION_AWS_S3_BUCKET_DOMAIN_NAME\<close> and
  \<^verbatim>\<open>KUSION_AWS_S3_BUCKET_REGIONAL_DOMAIN_NAME\<close>, whose values are the reference tokens
  built from that ID and the attributes \<^verbatim>\<open>bucket_domain_name\<close> and
  \<^verbatim>\<open>bucket_regional_domain_name\<close>; the error is nil. The resource ID \<open>rid\<close> and the
  envelope \<open>resource\<close> are what the two framework helpers return on these arguments.
\<close>

theorem GenerateAWSResources_mybucket:
  assumes "Bucket objectStorage = ''mybucket''"
  shows
    "resolved_region fw env defaultAWSProviderCfg = ''us-east-1'' \<and>
     TerraformResourceID fw defaultAWSProviderCfg ''aws_s3_bucket'' ''mybucket'' = Inr rid \<and>
     WrapTFResourceToKusionResource fw
       (defaultAWSProviderCfg\<lparr>ProviderMeta := Some [''region'' \<mapsto> AString ''us-east-1'']\<rparr>)
       ''aws_s3_bucket'' rid [''bucket'' \<mapsto> AString ''mybucket''] [] = Inr resource \<longrightarrow>
     GenerateAWSResources fw env objectStorage request =
       ([resource],
        Some \<lparr>Environments =
          [\<lparr>Name = ''KUSION_AWS_S3_BUCKET_DOMAIN_NAME'',
            Value = KusionPathDependency fw rid ''bucket_domain_name''\<rparr>,
           \<lparr>Name = ''KUSION_AWS_S3_BUCKET_REGIONAL_DOMAIN_NAME'',
            Value = KusionPathDependency fw rid ''bucket_regional_domain_name''\<rparr>]\<rparr>,
        None)"
proof (intro impI)
  assume h: "resolved_region fw env defaultAWSProviderCfg = ''us-east-1'' \<and>
     TerraformResourceID fw defaultAWSProviderCfg ''aws_s3_bucket'' ''mybucket'' = Inr rid \<and>
     WrapTFResourceToKusionResource fw
       (defaultAWSProviderCfg\<lparr>ProviderMeta := Some [''region'' \<mapsto> AString ''us-east-1'']\<rparr>)
       ''aws_s3_bucket'' rid [''bucket'' \<mapsto> AString ''mybucket''] [] = Inr resource"
  have "generateAWSS3Bucket fw objectStorage defaultAWSProviderCfg ''us-east-1'' =
      Inr (resource, rid)"
    using assms h by (intro generateAWSS3Bucket_ok) simp_all
  then show "GenerateAWSResources fw env objectStorage request =
       ([resource],
        Some \<lparr>Environments =
          [\<lparr>Name = ''KUSION_AWS_S3_BUCKET_DOMAIN_NAME'',
            Value = KusionPathDependency fw rid ''bucket_domain_name''\<rparr>,
           \<lparr>Name = ''KUSION_AWS_S3_BUCKET_REGIONAL_DOMAIN_NAME'',
            Value = KusionPathDependency fw rid ''bucket_regional_domain_name''\<rparr>]\<rparr>,
        None)"
    using h by (simp add: GenerateAWSResources_by_region bucket_result_def)
qed

theorem GenerateAWSResources_mybucket_witness:
  "Bucket \<lparr>Type = ''cloud'', Bucket = ''mybucket''\<rparr> = ''mybucket'' \<and>
   resolved_region sample_framework [''AWS_REGION'' \<mapsto> ''us-east-1''] defaultAWSProviderCfg =
     ''us-east-1'' \<and>
   GenerateAWSResources sample_framework [''AWS_REGION'' \<mapsto> ''us-east-1'']
     \<lparr>Type = ''cloud'', Bucket = ''mybucket''\<rparr> (None :: GeneratorRequest option) =
     ([\<lparr>ID = ''hashicorp/aws:aws_s3_bucket:mybucket'', ResourceType = ''aws_s3_bucket'',
        Attributes = [''bucket'' \<mapsto> AString ''mybucket''], DependsOn = [],
        Provider = \<lparr>Source = ''hashicorp/aws'', Version = ''5.55.0'',
                     ProviderMeta = Some [''region'' \<mapsto> AString ''us-east-1'']\<rparr>\<rparr>],
      Some \<lparr>Environments =
        [\<lparr>Name = ''KUSION_AWS_S3_BUCKET_DOMAIN_NAME'',
          Value = ''$kusion_path.hashicorp/aws:aws_s3_bucket:mybucket.bucket_domain_name''\<rparr>,
         \<lparr>Name = ''KUSION_AWS_S3_BUCKET_REGIONAL_DOMAIN_NAME'',
          Value =
            ''$kusion_path.hashicorp/aws:aws_s3_bucket:mybucket.bucket_regional_domain_name''\<rparr>]\<rparr>,
      None)"
proof -
  let ?env = "[''AWS_REGION'' \<mapsto> ''us-east-1'']"
  let ?os = "\<lparr>Type = ''cloud'', Bucket = ''mybucket''\<rparr>"
  let ?rid = "''hashicorp/aws:aws_s3_bucket:mybucket''"
  let ?res = "\<lparr>ID = ?rid, ResourceType = ''aws_s3_bucket'',
      Attributes = [''bucket'' \<mapsto> AString ''mybucket''], DependsOn = [],
      Provider = \<lparr>Source = ''hashicorp/aws'', Version = ''5.55.0'',
                   ProviderMeta = Some [''region'' \<mapsto> AString ''us-east-1'']\<rparr>\<rparr>"
  have b: "Bucket ?os = ''mybucket''"
    by simp
  have r: "resolved_region sample_framework ?env defaultAWSProviderCfg = ''us-east-1''"
    by (simp add: resolved_region_def sample_defs defaultAWSProviderCfg_def Getenv_def)
  have i: "TerraformResourceID sample_framework defaultAWSProviderCfg ''aws_s3_bucket''
      ''mybucket'' = Inr ?rid"
    by (simp add: sample_defs defaultAWSProviderCfg_def)
  have w: "WrapTFResourceToKusionResource sample_framework
      (defaultAWSProviderCfg\<lparr>ProviderMeta := Some [''region'' \<mapsto> AString ''us-east-1'']\<rparr>)
      ''aws_s3_bucket'' ?rid [''bucket'' \<mapsto> AString ''mybucket''] [] = Inr ?res"
    by (simp add: sample_defs defaultAWSProviderCfg_def)
  have k: "KusionPathDependency sample_framework ?rid attr = ''$kusion_path.'' @ ?rid @ ''.'' @ attr"
    for attr
    by (simp add: sample_defs)
  show ?thesis
    using b r GenerateAWSResources_mybucket [OF b, of sample_framework ?env ?rid ?res
        "None :: GeneratorRequest option"] r i w
    by (simp add: k)
qed

section \<open>Dispatch on type and provider\<close>

text \<open>
  C4. When the merged configuration has a type that is not \<^verbatim>\<open>cloud\<close> up to case,
  \<^verbatim>\<open>Generate\<close> returns a nil response and the error whose message is
  \<^verbatim>\<open>unsupported mysql type: \<close> followed by the type as configured. When the type is
  \<^verbatim>\<open>cloud\<close> and the provider extracted from the platform config is not \<^verbatim>\<open>aws\<close> up
  to case, it returns a nil response and the error whose message is
  \<^verbatim>\<open>unsupported cloud provider type: \<close> followed by the provider as configured.
\<close>

theorem Generate_unsupported:
  fixes fw :: "('e, 'r) framework"
  shows
  "(CompleteConfig (DevConfig req) (PlatformConfig req) objectStorage =
      (None :: 'e error option, merged) \<and>
    ToLower (Type merged) \<noteq> ''cloud'' \<longrightarrow>
      Generate fw env objectStorage (Some req) =
        ((None, Some (Errorf (''unsupported mysql type: '' @ Type merged))), merged)) \<and>
   (CompleteConfig (DevConfig req) (PlatformConfig req) objectStorage =
      (None :: 'e error option, merged) \<and>
    ToLower (Type merged) = ''cloud'' \<and>
    GetCloudProviderType (PlatformConfig req) = Returns (providerType, None :: 'e error option) \<and>
    ToLower providerType \<noteq> ''aws'' \<longrightarrow>
      Generate fw env objectStorage (Some req) =
        ((None, Some (Errorf (''unsupported cloud provider type: '' @ providerType))), merged)) \<and>
   Error (Errorf (''unsupported mysql type: '' @ Type merged) :: 'e error) =
     Some (''unsupported mysql type: '' @ Type merged) \<and>
   Error (Errorf (''unsupported cloud provider type: '' @ providerType) :: 'e error) =
     Some (''unsupported cloud provider type: '' @ providerType)"
  by (simp add: Generate_def Generate_body_def ValidateConfig_def)

theorem Generate_unsupported_witness:
  "Generate sample_framework Map.empty \<lparr>Type = '''', Bucket = ''''\<rparr>
     (Some \<lparr>DevConfig = Some [''type'' \<mapsto> AString ''unsupported''], PlatformConfig = None\<rparr>) =
     ((None, Some (Errorf ''unsupported mysql type: unsupported'')),
      \<lparr>Type = ''unsupported'', Bucket = ''''\<rparr>) \<and>
   Generate sample_framework Map.empty \<lparr>Type = '''', Bucket = ''''\<rparr>
     (Some \<lparr>DevConfig = Some [''type'' \<mapsto> AString ''cloud''],
            PlatformConfig = Some [''cloud'' \<mapsto> AString ''gcp'']\<rparr>) =
     ((None, Some (Errorf ''unsupported cloud provider type: gcp'')),
      \<lparr>Type = ''cloud'', Bucket = ''''\<rparr>)"
proof -
  let ?z = "\<lparr>Type = '''', Bucket = ''''\<rparr>"
  let ?r1 = "\<lparr>DevConfig = Some [''type'' \<mapsto> AString ''unsupported''], PlatformConfig = None\<rparr>"
  let ?r2 = "\<lparr>DevConfig = Some [''type'' \<mapsto> AString ''cloud''],
              PlatformConfig = Some [''cloud'' \<mapsto> AString ''gcp'']\<rparr>"
  have c1: "CompleteConfig (DevConfig ?r1) (PlatformConfig ?r1) ?z =
      (None :: string error option, \<lparr>Type = ''unsupported'', Bucket = ''''\<rparr>)"
    by (simp add: complete_defs)
  have c2: "CompleteConfig (DevConfig ?r2) (PlatformConfig ?r2) ?z =
      (None :: string error option, \<lparr>Type = ''cloud'', Bucket = ''''\<rparr>)"
    by (simp add: complete_defs)
  have g: "GetCloudProviderType (PlatformConfig ?r2) = Returns (''gcp'', None :: string error option)"
    by (simp add: GetCloudProviderType_def)
  show ?thesis
    using Generate_unsupported [of ?r1 ?z "\<lparr>Type = ''unsupported'', Bucket = ''''\<rparr>"
        sample_framework Map.empty] c1
      Generate_unsupported [of ?r2 ?z "\<lparr>Type = ''cloud'', Bucket = ''''\<rparr>"
        sample_framework Map.empty "''gcp''"] c2 g
    by (simp add: ToLower_examples)
qed

text \<open>
  C6. When the merged type is \<^verbatim>\<open>cloud\<close> and the key \<^verbatim>\<open>cloud\<close> of the platform
  config holds a value that is not a string, the type assertion of
  \<^verbatim>\<open>GetCloudProviderType\<close> panics, the body of \<^verbatim>\<open>Generate\<close> panics with it, and
  the deferred recover makes \<^verbatim>\<open>Generate\<close> return a nil response and a nil error. The
  witness is such an input.
\<close>

theorem Generate_recovers_panic:
  fixes fw :: "('e, 'r) framework"
  assumes "CompleteConfig (DevConfig req) (PlatformConfig req) objectStorage =
      (None :: 'e error option, merged)"
    and "ToLower (Type merged) = ''cloud''"
    and "PlatformConfig req = Some platform"
    and "platform ''cloud'' = Some cloud"
    and "\<forall>s. cloud \<noteq> AString s"
  shows "(GetCloudProviderType (PlatformConfig req) :: (string \<times> 'e error option) outcome) =
           Panics TypeAssertion \<and>
         fst (Generate_body fw env objectStorage (Some req)) = Panics TypeAssertion \<and>
         Generate fw env objectStorage (Some req) = ((None, None), merged)"
proof -
  have p: "(GetCloudProviderType (PlatformConfig req) :: (string \<times> 'e error option) outcome) =
      Panics TypeAssertion"
    using assms(3-5) by (cases cloud) (simp_all add: GetCloudProviderType_def)
  then show ?thesis using assms(1,2)
    by (simp add: Generate_def Generate_body_def ValidateConfig_def)
qed

theorem Generate_recovers_panic_witness:
  "(GetCloudProviderType (Some [''cloud'' \<mapsto> AScalar ''1'']) ::
      (string \<times> string error option) outcome) = Panics TypeAssertion \<and>
   Generate sample_framework [''AWS_REGION'' \<mapsto> ''us-east-1''] \<lparr>Type = '''', Bucket = ''''\<rparr>
     (Some \<lparr>DevConfig = Some [''type'' \<mapsto> AString ''cloud''],
            PlatformConfig = Some [''cloud'' \<mapsto> AScalar ''1'']\<rparr>) =
     ((None, None), \<lparr>Type = ''cloud'', Bucket = ''''\<rparr>)"
proof -
  let ?z = "\<lparr>Type = '''', Bucket = ''''\<rparr>"
  let ?r = "\<lparr>DevConfig = Some [''type'' \<mapsto> AString ''cloud''],
             PlatformConfig = Some [''cloud'' \<mapsto> AScalar ''1'']\<rparr>"
  have c: "CompleteConfig (DevConfig ?r) (PlatformConfig ?r) ?z =
      (None :: string error option, \<lparr>Type = ''cloud'', Bucket = ''''\<rparr>)"
    by (simp add: complete_defs)
  have t: "ToLower (Type \<lparr>Type = ''cloud'', Bucket = ''''\<rparr>) = ''cloud''"
    by (simp add: ToLower_examples)
  have m: "PlatformConfig ?r = Some [''cloud'' \<mapsto> AScalar ''1'']"
    by simp
  have k: "[''cloud'' \<mapsto> AScalar ''1''] ''cloud'' = Some (AScalar ''1'')"
    by simp
  have n: "\<forall>s. AScalar ''1'' \<noteq> AString s"
    by simp
  show ?thesis
    using Generate_recovers_panic [OF c t m k n, of sample_framework
        "[''AWS_REGION'' \<mapsto> ''us-east-1'']"]
    by simp
qed

section \<open>A complete run\<close>

text \<open>
  The successful path of \<^verbatim>\<open>Generate\<close> on the sample framework: the developer config
  names type and bucket, the platform config the provider, and the environment the region.
\<close>

lemma Generate_sample_run:
  "Generate sample_framework [''AWS_REGION'' \<mapsto> ''us-east-1''] \<lparr>Type = '''', Bucket = ''''\<rparr>
     (Some \<lparr>DevConfig = Some [''type'' \<mapsto> AString ''Cloud'', ''bucket'' \<mapsto> AString ''mybucket''],
            PlatformConfig = Some [''cloud'' \<mapsto> AString ''AWS'']\<rparr>) =
     ((Some \<lparr>Resources =
          [\<lparr>ID = ''hashicorp/aws:aws_s3_bucket:mybucket'', ResourceType = ''aws_s3_bucket'',
            Attributes = [''bucket'' \<mapsto> AString ''mybucket''], DependsOn = [],
            Provider = \<lparr>Source = ''hashicorp/aws'', Version = ''5.55.0'',
                         ProviderMeta = Some [''region'' \<mapsto> AString ''us-east-1'']\<rparr>\<rparr>],
        Patcher = Some \<lparr>Environments =
          [\<lparr>Name = ''KUSION_AWS_S3_BUCKET_DOMAIN_NAME'',
            Value = ''$kusion_path.hashicorp/aws:aws_s3_bucket:mybucket.bucket_domain_name''\<rparr>,
           \<lparr>Name = ''KUSION_AWS_S3_BUCKET_REGIONAL_DOMAIN_NAME'',
            Value =
              ''$kusion_path.hashicorp/aws:aws_s3_bucket:mybucket.bucket_regional_domain_name''\<rparr>]\<rparr>\<rparr>,
       None),
      \<lparr>Type = ''Cloud'', Bucket = ''mybucket''\<rparr>)"
proof -
  have c: "CompleteConfig
      (Some [''type'' \<mapsto> AString ''Cloud'', ''bucket'' \<mapsto> AString ''mybucket''])
      (Some [''cloud'' \<mapsto> AString ''AWS'']) \<lparr>Type = '''', Bucket = ''''\<rparr> =
      (None :: string error option, \<lparr>Type = ''Cloud'', Bucket = ''mybucket''\<rparr>)"
    by (simp add: complete_defs)
  have g: "GetCloudProviderType (Some [''cloud'' \<mapsto> AString ''AWS'']) =
      Returns (''AWS'', None :: string error option)"
    by (simp add: GetCloudProviderType_def)
  have r: "resolved_region sample_framework [''AWS_REGION'' \<mapsto> ''us-east-1'']
      defaultAWSProviderCfg = ''us-east-1''"
    by (simp add: resolved_region_def sample_defs defaultAWSProviderCfg_def Getenv_def)
  have b: "bucket_result sample_framework \<lparr>Type = ''Cloud'', Bucket = ''mybucket''\<rparr>
      defaultAWSProviderCfg ''us-east-1'' =
      ([\<lparr>ID = ''hashicorp/aws:aws_s3_bucket:mybucket'', ResourceType = ''aws_s3_bucket'',
         Attributes = [''bucket'' \<mapsto> AString ''mybucket''], DependsOn = [],
         Provider = \<lparr>Source = ''hashicorp/aws'', Version = ''5.55.0'',
                      ProviderMeta = Some [''region'' \<mapsto> AString ''us-east-1'']\<rparr>\<rparr>],
       Some \<lparr>Environments =
         [\<lparr>Name = ''KUSION_AWS_S3_BUCKET_DOMAIN_NAME'',
           Value = ''$kusion_path.hashicorp/aws:aws_s3_bucket:mybucket.bucket_domain_name''\<rparr>,
          \<lparr>Name = ''KUSION_AWS_S3_BUCKET_REGIONAL_DOMAIN_NAME'',
           Value =
             ''$kusion_path.hashicorp/aws:aws_s3_bucket:mybucket.bucket_regional_domain_name''\<rparr>]\<rparr>,
       None)"
    by (simp add: bucket_result_def generateAWSS3Bucket_def awsS3Bucket_def sample_defs
        defaultAWSProviderCfg_def)
  have a: "GenerateAWSResources sample_framework [''AWS_REGION'' \<mapsto> ''us-east-1'']
      \<lparr>Type = ''Cloud'', Bucket = ''mybucket''\<rparr> request =
      ([\<lparr>ID = ''hashicorp/aws:aws_s3_bucket:mybucket'', ResourceType = ''aws_s3_bucket'',
         Attributes = [''bucket'' \<mapsto> AString ''mybucket''], DependsOn = [],
         Provider = \<lparr>Source = ''hashicorp/aws'', Version = ''5.55.0'',
                      ProviderMeta = Some [''region'' \<mapsto> AString ''us-east-1'']\<rparr>\<rparr>],
       Some \<lparr>Environments =
         [\<lparr>Name = ''KUSION_AWS_S3_BUCKET_DOMAIN_NAME'',
           Value = ''$kusion_path.hashicorp/aws:aws_s3_bucket:mybucket.bucket_domain_name''\<rparr>,
          \<lparr>Name = ''KUSION_AWS_S3_BUCKET_REGIONAL_DOMAIN_NAME'',
           Value =
             ''$kusion_path.hashicorp/aws:aws_s3_bucket:mybucket.bucket_regional_domain_name''\<rparr>]\<rparr>,
       None)" for request :: "GeneratorRequest option"
    by (simp add: GenerateAWSResources_by_region r b)
  show ?thesis
    by (simp add: Generate_def Generate_body_def c g a ValidateConfig_def ToLower_examples)
qed

end
